theory Spec2Isabelle
  imports Complex_Main
begin

section \<open>Numbers\<close>

text \<open>
  JavaScript numbers are modelled by the real numbers: every arithmetic operation of the
  source is read as the exact operation, \<open>Math.cos\<close>, \<open>Math.sin\<close> and \<open>Math.PI\<close> as
  \<open>cos\<close>, \<open>sin\<close> and \<open>pi\<close>. A result that is \<open>NaN\<close> in the source is \<open>None\<close>.
  Counts that drive a loop are integers; a loop \<open>for (i = 0; i < n; i++)\<close> runs
  \<open>nat n\<close> times. The twinkle animator is given a second time with every operation
  rounded as the source's IEEE 754 binary64 numbers round it, since its pulse jumps at the
  cycle boundary and the rounding decides on which side of the jump a time falls.
\<close>

definition js_trunc :: "real \<Rightarrow> int" where
  "js_trunc v = (if 0 \<le> v then \<lfloor>v\<rfloor> else \<lceil>v\<rceil>)"

text \<open>The remainder operator \<open>a % b\<close>: the result has the sign of the dividend, and
  \<open>a % 0\<close> is \<open>NaN\<close>.\<close>

definition js_rem :: "real \<Rightarrow> real \<Rightarrow> real option" where
  "js_rem a b = (if b = 0 then None else Some (a - b * of_int (js_trunc (a / b))))"

text \<open>\<open>Math.atan2(y, x)\<close>: the angle of the point \<open>(x, y)\<close>, in the interval from \<open>-pi\<close>
  to \<open>pi\<close>.\<close>

definition js_atan2 :: "real \<Rightarrow> real \<Rightarrow> real" where
  "js_atan2 y x =
     (if 0 < x then arctan (y / x)
      else if x < 0 then (if 0 \<le> y then arctan (y / x) + pi else arctan (y / x) - pi)
      else if 0 < y then pi / 2
      else if y < 0 then - pi / 2
      else 0)"

section \<open>Binary64 numbers\<close>






section \<open>config.js\<close>

record spectralClass =
  classType :: string
  classColor :: string
  percentage :: real

record starConfig =
  countDesktop :: int
  countMobile :: int
  mobileBreakpoint :: real
  maxSize :: real
  minSize :: real
  animationDelayMax :: real
  animationDurationMin :: real
  animationDurationMax :: real
  twinkleOpacityMin :: real
  twinkleOpacityMax :: real
  staticPercentage :: real
  staticOpacityMin :: real
  staticOpacityMax :: real
  spectralClasses :: "spectralClass list"
  binaryPercentage :: real
  binarySeparationMin :: real
  binarySeparationMax :: real

record planetConfig =
  planetName :: string
  planetColor :: string
  planetSize :: real
  planetOpacity :: real

record meteorConfig =
  startXMin :: real
  startXMax :: real
  startYMinWhenXOutOfBounds :: real
  startYMinWhenXInBounds :: real
  startYMax :: real
  angleMin :: real
  angleMax :: real
  angleVariation :: real
  durationMin :: real
  durationMax :: real
  showerCountMin :: int
  showerCountMax :: int
  showerIntervalMin :: real
  showerIntervalMax :: real
  singleMeteorIntervalMin :: real
  singleMeteorIntervalMax :: real
  nextShowerMin :: real
  nextShowerMax :: real
  singleMeteorStreamCount :: int
  initialMeteorDelayMax :: real
  initialShowerDelayMin :: real
  initialShowerDelayMax :: real
  showerCleanupDelayPerMeteor :: real
  showerCleanupDelayBase :: real

record config =
  stars :: starConfig
  planets :: "planetConfig list"
  meteors :: meteorConfig

definition CONFIG_stars :: starConfig where
  "CONFIG_stars = \<lparr>
     countDesktop = 1200, countMobile = 800, mobileBreakpoint = 768,
     maxSize = 3, minSize = 1,
     animationDelayMax = 6, animationDurationMin = 4, animationDurationMax = 10,
     twinkleOpacityMin = 0.4, twinkleOpacityMax = 1.0,
     staticPercentage = 0.3, staticOpacityMin = 0.4, staticOpacityMax = 0.7,
     spectralClasses = [
       \<lparr>classType = ''O-B'', classColor = ''rgba(155, 176, 255,'', percentage = 0.05\<rparr>,
       \<lparr>classType = ''A'', classColor = ''rgba(202, 215, 255,'', percentage = 0.15\<rparr>,
       \<lparr>classType = ''F-G'', classColor = ''rgba(248, 247, 255,'', percentage = 0.3\<rparr>,
       \<lparr>classType = ''K'', classColor = ''rgba(255, 210, 161,'', percentage = 0.3\<rparr>,
       \<lparr>classType = ''M'', classColor = ''rgba(255, 204, 111,'', percentage = 0.2\<rparr>],
     binaryPercentage = 0.025, binarySeparationMin = 2, binarySeparationMax = 8\<rparr>"

definition CONFIG_planets :: "planetConfig list" where
  "CONFIG_planets = [
     \<lparr>planetName = ''Venus'', planetColor = ''rgba(255, 250, 235,'', planetSize = 4.5, planetOpacity = 0.95\<rparr>,
     \<lparr>planetName = ''Jupiter'', planetColor = ''rgba(255, 244, 229,'', planetSize = 4.2, planetOpacity = 0.9\<rparr>,
     \<lparr>planetName = ''Mars'', planetColor = ''rgba(255, 180, 140,'', planetSize = 3.5, planetOpacity = 0.85\<rparr>,
     \<lparr>planetName = ''Saturn'', planetColor = ''rgba(255, 245, 220,'', planetSize = 3.8, planetOpacity = 0.88\<rparr>,
     \<lparr>planetName = ''Mercury'', planetColor = ''rgba(230, 235, 255,'', planetSize = 3, planetOpacity = 0.8\<rparr>]"

definition CONFIG_meteors :: meteorConfig where
  "CONFIG_meteors = \<lparr>
     startXMin = 90, startXMax = 120,
     startYMinWhenXOutOfBounds = -10, startYMinWhenXInBounds = -40, startYMax = 50,
     angleMin = 130, angleMax = 160, angleVariation = 15,
     durationMin = 4, durationMax = 6,
     showerCountMin = 6, showerCountMax = 12,
     showerIntervalMin = 80, showerIntervalMax = 230,
     singleMeteorIntervalMin = 1500, singleMeteorIntervalMax = 5500,
     nextShowerMin = 3000, nextShowerMax = 8000,
     singleMeteorStreamCount = 2, initialMeteorDelayMax = 2000,
     initialShowerDelayMin = 2000, initialShowerDelayMax = 4000,
     showerCleanupDelayPerMeteor = 250, showerCleanupDelayBase = 2000\<rparr>"

definition CONFIG :: config where
  "CONFIG = \<lparr>stars = CONFIG_stars, planets = CONFIG_planets, meteors = CONFIG_meteors\<rparr>"

section \<open>utils.js\<close>

definition easeInOutSine :: "real \<Rightarrow> real" where
  "easeInOutSine t = - (cos (pi * t) - 1) / 2"

text \<open>\<open>getStarCount\<close> reads \<open>window.innerWidth\<close>, a parameter here.\<close>

definition getStarCount :: "config \<Rightarrow> real \<Rightarrow> int" where
  "getStarCount cfg innerWidth =
     (if innerWidth < mobileBreakpoint (stars cfg) then countMobile (stars cfg)
      else countDesktop (stars cfg))"


section \<open>stars.js: the star record and the twinkle animator\<close>

text \<open>
  A star object carries either \<open>opacity\<close> (with \<open>isStatic: true\<close>) or \<open>twinkleDelay\<close> and
  \<open>twinkleDuration\<close> (with \<open>isStatic: false\<close>).
\<close>

datatype animation =
  Static (opacity: real)
  | Twinkling (twinkleDelay: real) (twinkleDuration: real)

record star =
  star_x :: real
  star_y :: real
  star_size :: real
  star_color :: string
  star_animation :: animation

definition isStatic :: "star \<Rightarrow> bool" where
  "isStatic s = (case star_animation s of Static _ \<Rightarrow> True | Twinkling _ _ \<Rightarrow> False)"

text \<open>
  \<open>getTwinkleOpacity(star, currentTime)\<close>; the module constant \<open>startTime\<close> is a parameter.
  On a static star the fields \<open>twinkleDelay\<close> and \<open>twinkleDuration\<close> are \<open>undefined\<close>, the
  elapsed time is \<open>NaN\<close>, the comparison \<open>elapsed < 0\<close> is false and the result is \<open>NaN\<close>.
\<close>

definition getTwinkleOpacity :: "config \<Rightarrow> real \<Rightarrow> star \<Rightarrow> real \<Rightarrow> real option" where
  "getTwinkleOpacity cfg startTime s currentTime =
     (case star_animation s of
        Static _ \<Rightarrow> None
      | Twinkling delay duration \<Rightarrow>
          (let elapsed = currentTime - startTime - delay in
           if elapsed < 0 then Some (twinkleOpacityMin (stars cfg))
           else (case js_rem elapsed duration of
                   None \<Rightarrow> None
                 | Some r \<Rightarrow>
                     (let cyclePosition = r / duration;
                          easedPosition = easeInOutSine cyclePosition
                      in Some (twinkleOpacityMin (stars cfg) +
                               easedPosition *
                                 (twinkleOpacityMax (stars cfg) - twinkleOpacityMin (stars cfg)))))))"



section \<open>stars.js: generation\<close>

text \<open>
  \<open>Math.random()\<close> is a global source of draws: an infinite sequence of reals, of which
  each call takes the next.
\<close>

type_synonym rng = "nat \<Rightarrow> real"

definition random :: "rng \<Rightarrow> real \<times> rng" where
  "random r = (r 0, \<lambda>n. r (Suc n))"

datatype js_error = TypeError

text \<open>The loop of \<open>getSpectralColor\<close>, with the running value of \<open>cumulative\<close>;
  \<open>None\<close> when the loop ends without returning.\<close>

fun spectralWalk :: "spectralClass list \<Rightarrow> real \<Rightarrow> real \<Rightarrow> string option" where
  "spectralWalk [] cumulative rand = None"
| "spectralWalk (c # cs) cumulative rand =
     (let cumulative' = cumulative + percentage c in
      if rand \<le> cumulative' then Some (classColor c)
      else spectralWalk cs cumulative' rand)"

text \<open>
  \<open>getSpectralColor\<close>, with the draw \<open>rand\<close> as argument. After the loop the source reads
  \<open>CONFIG.stars.spectralClasses[2].color\<close>, which throws a \<open>TypeError\<close> when the list has
  no element of index 2.
\<close>

definition getSpectralColor :: "config \<Rightarrow> real \<Rightarrow> js_error + string" where
  "getSpectralColor cfg rand =
     (case spectralWalk (spectralClasses (stars cfg)) 0 rand of
        Some c \<Rightarrow> Inr c
      | None \<Rightarrow>
          (if 2 < length (spectralClasses (stars cfg))
           then Inr (classColor (spectralClasses (stars cfg) ! 2))
           else Inl TypeError))"

text \<open>
  The object literal pushed by \<open>generateStars\<close>, which the source writes out four times
  (primary and companion, static and twinkling): a static star draws its opacity, a
  twinkling star draws its delay and then its duration.
\<close>

definition makeStar ::
  "config \<Rightarrow> real \<Rightarrow> real \<Rightarrow> real \<Rightarrow> string \<Rightarrow> bool \<Rightarrow> rng \<Rightarrow> star \<times> rng" where
  "makeStar cfg x y sz color static r =
     (if static then
        (let (d, r1) = random r in
         (\<lparr>star_x = x, star_y = y, star_size = sz, star_color = color,
            star_animation =
              Static (staticOpacityMin (stars cfg) +
                      d * (staticOpacityMax (stars cfg) - staticOpacityMin (stars cfg)))\<rparr>,
          r1))
      else
        (let (d1, r1) = random r; (d2, r2) = random r1 in
         (\<lparr>star_x = x, star_y = y, star_size = sz, star_color = color,
            star_animation =
              Twinkling (d1 * animationDelayMax (stars cfg) * 1000)
                ((animationDurationMin (stars cfg) +
                  d2 * (animationDurationMax (stars cfg) - animationDurationMin (stars cfg))) *
                 1000)\<rparr>,
          r2)))"

text \<open>
  One pass of the body of the \<open>for\<close> loop of \<open>generateStars\<close>: the stars it pushes (the
  primary, then its companion if there is one), or the error thrown by
  \<open>getSpectralColor\<close> before anything is pushed.
\<close>

definition starIteration ::
  "config \<Rightarrow> real \<Rightarrow> real \<Rightarrow> rng \<Rightarrow> (js_error + star list) \<times> rng" where
  "starIteration cfg canvasWidth canvasHeight r =
     (let (d1, r1) = random r; x = d1 * canvasWidth;
          (d2, r2) = random r1; y = (d2 powr 1.5) * canvasHeight;
          (d3, r3) = random r2;
          sz = minSize (stars cfg) + d3 * (maxSize (stars cfg) - minSize (stars cfg));
          (d4, r4) = random r3
      in case getSpectralColor cfg d4 of
           Inl e \<Rightarrow> (Inl e, r4)
         | Inr color \<Rightarrow>
            (let (d5, r5) = random r4; static = (d5 < staticPercentage (stars cfg));
                 (primary, r6) = makeStar cfg x y sz color static r5;
                 (d7, r7) = random r6
             in if d7 < binaryPercentage (stars cfg) then
                  (let (d8, r8) = random r7; angle = d8 * pi * 2;
                       (d9, r9) = random r8;
                       separation = binarySeparationMin (stars cfg) +
                         d9 * (binarySeparationMax (stars cfg) - binarySeparationMin (stars cfg));
                       companionX = x + cos angle * separation;
                       companionY = y + sin angle * separation;
                       (d10, r10) = random r9;
                       companionSize = sz * (0.6 + d10 * 0.3);
                       (companion, r11) =
                          makeStar cfg companionX companionY companionSize color static r10
                   in (Inr [primary, companion], r11))
                else (Inr [primary], r7)))"

text \<open>The \<open>for\<close> loop, with the number of passes left and the array \<open>stars\<close> built so
  far; an exception leaves the loop with what has been pushed.\<close>

fun starLoop ::
  "config \<Rightarrow> real \<Rightarrow> real \<Rightarrow> nat \<Rightarrow> star list \<Rightarrow> rng \<Rightarrow> js_error option \<times> star list \<times> rng" where
  "starLoop cfg canvasWidth canvasHeight 0 acc r = (None, acc, r)"
| "starLoop cfg canvasWidth canvasHeight (Suc n) acc r =
     (case starIteration cfg canvasWidth canvasHeight r of
        (Inl e, r') \<Rightarrow> (Some e, acc, r')
      | (Inr pushed, r') \<Rightarrow> starLoop cfg canvasWidth canvasHeight n (acc @ pushed) r')"

record planet =
  planet_x :: real
  planet_y :: real
  planet_size :: real
  planet_color :: string
  planet_opacity :: real
  planet_name :: string

text \<open>\<open>CONFIG.planets.forEach((planet, index) => ...)\<close>, with the index of the head of
  the list still to visit.\<close>

fun planetLoop ::
  "config \<Rightarrow> real \<Rightarrow> real \<Rightarrow> planetConfig list \<Rightarrow> nat \<Rightarrow> planet list \<Rightarrow> rng \<Rightarrow> planet list \<times> rng" where
  "planetLoop cfg canvasWidth canvasHeight [] index acc r = (acc, r)"
| "planetLoop cfg canvasWidth canvasHeight (p # ps) index acc r =
     (let baseX = (canvasWidth / (real (length (planets cfg)) + 1)) * (real index + 1);
          (d1, r1) = random r; baseY = canvasHeight * (0.2 + d1 * 0.4);
          (d2, r2) = random r1; offsetX = (d2 - 0.5) * canvasWidth * 0.15;
          (d3, r3) = random r2; offsetY = (d3 - 0.5) * canvasHeight * 0.15
      in planetLoop cfg canvasWidth canvasHeight ps (Suc index)
           (acc @ [\<lparr>planet_x = baseX + offsetX, planet_y = baseY + offsetY,
                     planet_size = planetSize p, planet_color = planetColor p,
                     planet_opacity = planetOpacity p, planet_name = planetName p\<rparr>]) r3)"

text \<open>The module state of stars.js that generation writes, with the source of draws.\<close>

record starState =
  st_stars :: "star list"
  st_planets :: "planet list"
  st_rng :: rng

text \<open>
  An argument of \<open>generateStars\<close> is a number or \<open>undefined\<close> (\<open>None\<close>). \<open>!v\<close> holds of
  \<open>undefined\<close> and of zero; \<open>v <= 0\<close> is false of \<open>undefined\<close>.
\<close>

definition js_not :: "real option \<Rightarrow> bool" where
  "js_not v = (case v of None \<Rightarrow> True | Some a \<Rightarrow> a = 0)"

definition js_le0 :: "real option \<Rightarrow> bool" where
  "js_le0 v = (case v of None \<Rightarrow> False | Some a \<Rightarrow> a \<le> 0)"

text \<open>
  \<open>generateStars(canvasWidth, canvasHeight)\<close>. The result is the module state after the
  call, with the exception that escaped, if any.
\<close>

definition generateStars ::
  "config \<Rightarrow> real \<Rightarrow> real option \<Rightarrow> real option \<Rightarrow> starState \<Rightarrow> js_error option \<times> starState" where
  "generateStars cfg innerWidth canvasWidth canvasHeight s =
     (if js_not canvasWidth \<or> js_not canvasHeight \<or> js_le0 canvasWidth \<or> js_le0 canvasHeight
      then (None, s\<lparr>st_stars := []\<rparr>)
      else
        (let w = the canvasWidth; h = the canvasHeight;
             numStars = getStarCount cfg innerWidth
         in case starLoop cfg w h (nat numStars) [] (st_rng s) of
              (Some e, acc, r) \<Rightarrow> (Some e, s\<lparr>st_stars := acc, st_rng := r\<rparr>)
            | (None, acc, r) \<Rightarrow>
               (case planetLoop cfg w h (planets cfg) 0 [] r of
                  (ps, r') \<Rightarrow> (None, s\<lparr>st_stars := acc, st_planets := ps, st_rng := r'\<rparr>))))"

section \<open>meteors.js\<close>

definition METEOR_ANGLES :: "real list" where
  "METEOR_ANGLES = [130, 135, 140, 145, 150, 155, 160, 165]"

datatype distanceTier = Short | Med | Long

definition DISTANCE_TIERS :: "distanceTier list" where
  "DISTANCE_TIERS = [Short, Med, Long]"

text \<open>The object \<open>distances\<close> of \<open>generateMeteorKeyframes\<close>, read at a tier.\<close>

fun distances :: "real \<Rightarrow> distanceTier \<Rightarrow> real" where
  "distances heroDiagonal Short = heroDiagonal - 25"
| "distances heroDiagonal Med = heroDiagonal"
| "distances heroDiagonal Long = heroDiagonal + 25"

text \<open>
  One \<open>@keyframes meteor-angle-tier\<close> rule of the generated style sheet. Its stops at
  0, 5 and 95 per cent are constant text; the rule is determined by the angle and the tier
  of its name and by the translation of its last stop.
\<close>

record keyframe =
  kf_angle :: real
  kf_tier :: distanceTier
  endX :: real
  endY :: real

definition meteorKeyframe :: "real \<Rightarrow> real \<Rightarrow> distanceTier \<Rightarrow> keyframe" where
  "meteorKeyframe heroDiagonal angle tier =
     (let radians = (angle * pi) / 180;
          distance = distances heroDiagonal tier
      in \<lparr>kf_angle = angle, kf_tier = tier,
          endX = cos radians * distance, endY = sin radians * distance\<rparr>)"

text \<open>The text \<open>keyframesCSS\<close> built by the two nested \<open>forEach\<close>, as the list of its
  rules.\<close>

definition keyframesCSS :: "real \<Rightarrow> keyframe list" where
  "keyframesCSS heroDiagonal =
     concat (map (\<lambda>angle. map (\<lambda>tier. meteorKeyframe heroDiagonal angle tier) DISTANCE_TIERS)
               METEOR_ANGLES)"

text \<open>
  An element of the meteors container. A meteor has class \<open>meteor\<close>, the children
  \<open>meteor-head\<close> and \<open>meteor-tail\<close>, and its inline style; in the animation name
  \<open>meteor-angle-tier\<close> an \<open>undefined\<close> angle or tier is \<open>None\<close>.
\<close>

record element =
  elemId :: nat
  className :: string
  childClasses :: "string list"
  styleLeft :: real
  styleTop :: real
  animationAngle :: "real option"
  animationTier :: "distanceTier option"
  animationDuration :: real

datatype callback =
  CreateSingleMeteor
  | TriggerMeteorShower
  | ShowerMeteor real
  | ShowerCleanup
  | MeteorCleanup nat

record timer =
  timerId :: nat
  timerDelay :: real
  timerCallback :: callback

text \<open>
  The module state of meteors.js, together with the part of the host it acts on: the
  children of the meteors container (\<open>None\<close> when \<open>meteorsContainer\<close> is \<open>null\<close>), the
  rules of the style element \<open>meteor-keyframes\<close> (\<open>None\<close> when there is none), the timers
  the host holds pending, the next timer and element identities, and the source of draws.
\<close>

record meteorState =
  meteorsContainer :: "element list option"
  heroDiagonal :: real
  isShowerActive :: bool
  isPageVisible :: bool
  activeMeteorTimeouts :: "nat list"
  activeShowerTimeouts :: "nat list"
  meteorKeyframes :: "keyframe list option"
  timers :: "timer list"
  nextTimerId :: nat
  nextElemId :: nat
  m_rng :: rng

definition setTimeout :: "callback \<Rightarrow> real \<Rightarrow> meteorState \<Rightarrow> nat \<times> meteorState" where
  "setTimeout cb ms s =
     (nextTimerId s,
      s\<lparr>timers := timers s @ [\<lparr>timerId = nextTimerId s, timerDelay = ms, timerCallback = cb\<rparr>],
        nextTimerId := Suc (nextTimerId s)\<rparr>)"

definition clearTimeout :: "meteorState \<Rightarrow> nat \<Rightarrow> meteorState" where
  "clearTimeout s i = s\<lparr>timers := filter (\<lambda>t. timerId t \<noteq> i) (timers s)\<rparr>"

text \<open>\<open>generateMeteorKeyframes\<close>: \<open>!heroDiagonal\<close> holds of zero.\<close>

definition generateMeteorKeyframes :: "meteorState \<Rightarrow> meteorState" where
  "generateMeteorKeyframes s =
     (if heroDiagonal s = 0 then s
      else s\<lparr>meteorKeyframes := Some (keyframesCSS (heroDiagonal s))\<rparr>)"

definition calculateMeteorStartPosition :: "config \<Rightarrow> rng \<Rightarrow> (real \<times> real) \<times> rng" where
  "calculateMeteorStartPosition cfg r =
     (let (d1, r1) = random r;
          startX = startXMax (meteors cfg) -
                   d1 * (startXMax (meteors cfg) - startXMin (meteors cfg));
          (d2, r2) = random r1;
          startY =
            (if startX < 100
             then startYMinWhenXInBounds (meteors cfg) +
                  d2 * (startYMax (meteors cfg) - startYMinWhenXInBounds (meteors cfg))
             else startYMinWhenXOutOfBounds (meteors cfg) +
                  d2 * (startYMax (meteors cfg) - startYMinWhenXOutOfBounds (meteors cfg)))
      in ((startX, startY), r2))"

text \<open>\<open>xs[Math.floor(v)]\<close>: \<open>undefined\<close> outside the array.\<close>

definition js_index :: "'a list \<Rightarrow> real \<Rightarrow> 'a option" where
  "js_index xs v = (if 0 \<le> \<lfloor>v\<rfloor> \<and> nat \<lfloor>v\<rfloor> < length xs then Some (xs ! nat \<lfloor>v\<rfloor>) else None)"

text \<open>\<open>xs.reduce(f)\<close> without initial value: a \<open>TypeError\<close> on the empty array, else the
  fold from the first element over the rest.\<close>

definition reduce :: "('a \<Rightarrow> 'a \<Rightarrow> 'a) \<Rightarrow> 'a list \<Rightarrow> js_error + 'a" where
  "reduce f xs = (case xs of [] \<Rightarrow> Inl TypeError | x # rest \<Rightarrow> Inr (foldl f x rest))"

definition closer :: "real \<Rightarrow> real \<Rightarrow> real \<Rightarrow> real" where
  "closer baseAngle prev cur =
     (if \<bar>cur - baseAngle\<bar> < \<bar>prev - baseAngle\<bar> then cur else prev)"

text \<open>\<open>selectMeteorAngle(baseAngle)\<close>: \<open>None\<close> is the argument \<open>null\<close>; only that branch
  takes a draw.\<close>

definition selectMeteorAngle :: "real option \<Rightarrow> rng \<Rightarrow> (js_error + real option) \<times> rng" where
  "selectMeteorAngle baseAngle r =
     (case baseAngle of
        Some b \<Rightarrow>
          (case reduce (closer b) METEOR_ANGLES of
             Inl e \<Rightarrow> (Inl e, r)
           | Inr a \<Rightarrow> (Inr (Some a), r))
      | None \<Rightarrow>
          (let (d, r1) = random r
           in (Inr (js_index METEOR_ANGLES (d * real (length METEOR_ANGLES))), r1)))"

definition selectMeteorAnimation :: "rng \<Rightarrow> distanceTier option \<times> rng" where
  "selectMeteorAnimation r =
     (let (d, r1) = random r
      in (js_index DISTANCE_TIERS (d * real (length DISTANCE_TIERS)), r1))"

text \<open>
  \<open>createMeteor(baseAngle)\<close>. An exception inside the \<open>try\<close> is caught and logged: the
  draws taken so far are gone and nothing else has changed.
\<close>

definition createMeteor :: "config \<Rightarrow> real option \<Rightarrow> meteorState \<Rightarrow> meteorState" where
  "createMeteor cfg baseAngle s =
     (case meteorsContainer s of
        None \<Rightarrow> s
      | Some kids \<Rightarrow>
          if heroDiagonal s = 0 then s
          else
            (let ((startX, startY), r1) = calculateMeteorStartPosition cfg (m_rng s)
             in case selectMeteorAngle baseAngle r1 of
                  (Inl e, r2) \<Rightarrow> s\<lparr>m_rng := r2\<rparr>
                | (Inr angle, r2) \<Rightarrow>
                   (let (tier, r3) = selectMeteorAnimation r2;
                        (d, r4) = random r3;
                        duration = durationMin (meteors cfg) +
                                   d * (durationMax (meteors cfg) - durationMin (meteors cfg));
                        meteor = \<lparr>elemId = nextElemId s, className = ''meteor'',
                                  childClasses = [''meteor-head'', ''meteor-tail''],
                                  styleLeft = startX, styleTop = startY,
                                  animationAngle = angle, animationTier = tier,
                                  animationDuration = duration\<rparr>;
                        s1 = s\<lparr>meteorsContainer := Some (kids @ [meteor]),
                               nextElemId := Suc (nextElemId s), m_rng := r4\<rparr>;
                        (cleanupTimeoutId, s2) =
                           setTimeout (MeteorCleanup (elemId meteor)) (duration * 1000) s1
                    in s2\<lparr>activeMeteorTimeouts := activeMeteorTimeouts s2 @ [cleanupTimeoutId]\<rparr>)))"

text \<open>The \<open>for\<close> loop of \<open>triggerMeteorShower\<close>, with the passes left and the index
  \<open>i\<close>.\<close>

fun showerLoop :: "config \<Rightarrow> real \<Rightarrow> nat \<Rightarrow> nat \<Rightarrow> meteorState \<Rightarrow> meteorState" where
  "showerLoop cfg showerAngle 0 i s = s"
| "showerLoop cfg showerAngle (Suc n) i s =
     (let (d, r1) = random (m_rng s);
          (timeoutId, s1) =
             setTimeout (ShowerMeteor showerAngle)
               (real i * (showerIntervalMin (meteors cfg) +
                          d * (showerIntervalMax (meteors cfg) - showerIntervalMin (meteors cfg))))
               (s\<lparr>m_rng := r1\<rparr>)
      in showerLoop cfg showerAngle n (Suc i)
           (s1\<lparr>activeShowerTimeouts := activeShowerTimeouts s1 @ [timeoutId]\<rparr>))"

definition triggerMeteorShower :: "config \<Rightarrow> meteorState \<Rightarrow> meteorState" where
  "triggerMeteorShower cfg s =
     (if isShowerActive s \<or> \<not> isPageVisible s then s
      else
        (let (d1, r1) = random (m_rng s);
             showerAngle = angleMin (meteors cfg) +
                           d1 * (angleMax (meteors cfg) - angleMin (meteors cfg));
             (d2, r2) = random r1;
             numMeteors = showerCountMin (meteors cfg) +
                \<lfloor>d2 * real_of_int (showerCountMax (meteors cfg) - showerCountMin (meteors cfg) + 1)\<rfloor>;
             s1 = showerLoop cfg showerAngle (nat numMeteors) 0
                    (s\<lparr>isShowerActive := True, m_rng := r2\<rparr>);
             (cleanupTimeoutId, s2) =
                setTimeout ShowerCleanup
                  (real_of_int numMeteors * showerCleanupDelayPerMeteor (meteors cfg) +
                   showerCleanupDelayBase (meteors cfg)) s1
         in s2\<lparr>activeShowerTimeouts := activeShowerTimeouts s2 @ [cleanupTimeoutId]\<rparr>))"

definition scheduleNextShower :: "config \<Rightarrow> meteorState \<Rightarrow> meteorState" where
  "scheduleNextShower cfg s =
     (if \<not> isPageVisible s then s
      else
        (let (d, r1) = random (m_rng s);
             nextShowerIn = nextShowerMin (meteors cfg) +
                            d * (nextShowerMax (meteors cfg) - nextShowerMin (meteors cfg));
             (timeoutId, s1) = setTimeout TriggerMeteorShower nextShowerIn (s\<lparr>m_rng := r1\<rparr>)
         in s1\<lparr>activeShowerTimeouts := activeShowerTimeouts s1 @ [timeoutId]\<rparr>))"

definition createSingleMeteor :: "config \<Rightarrow> meteorState \<Rightarrow> meteorState" where
  "createSingleMeteor cfg s =
     (if \<not> isPageVisible s then s
      else
        (let s0 = createMeteor cfg None s;
             (d, r1) = random (m_rng s0);
             nextMeteorIn = singleMeteorIntervalMin (meteors cfg) +
                d * (singleMeteorIntervalMax (meteors cfg) - singleMeteorIntervalMin (meteors cfg));
             (timeoutId, s1) = setTimeout CreateSingleMeteor nextMeteorIn (s0\<lparr>m_rng := r1\<rparr>)
         in s1\<lparr>activeMeteorTimeouts := activeMeteorTimeouts s1 @ [timeoutId]\<rparr>))"

text \<open>The \<open>for\<close> loop of \<open>startMeteors\<close>: the value of each \<open>setTimeout\<close> is dropped.\<close>

fun startLoop :: "config \<Rightarrow> nat \<Rightarrow> meteorState \<Rightarrow> meteorState" where
  "startLoop cfg 0 s = s"
| "startLoop cfg (Suc n) s =
     (let (d, r1) = random (m_rng s);
          (timeoutId, s1) =
             setTimeout CreateSingleMeteor (d * initialMeteorDelayMax (meteors cfg))
               (s\<lparr>m_rng := r1\<rparr>)
      in startLoop cfg n s1)"

definition startMeteors :: "config \<Rightarrow> meteorState \<Rightarrow> meteorState" where
  "startMeteors cfg s =
     (let s1 = startLoop cfg (nat (singleMeteorStreamCount (meteors cfg))) s;
          (d, r1) = random (m_rng s1);
          (timeoutId, s2) =
             setTimeout TriggerMeteorShower
               (initialShowerDelayMin (meteors cfg) +
                d * (initialShowerDelayMax (meteors cfg) - initialShowerDelayMin (meteors cfg)))
               (s1\<lparr>m_rng := r1\<rparr>)
      in s2)"

text \<open>\<open>container.querySelectorAll(".meteor")\<close>, over the children of the container.\<close>

definition querySelectorAllMeteor :: "element list \<Rightarrow> element list" where
  "querySelectorAllMeteor kids = filter (\<lambda>e. className e = ''meteor'') kids"

text \<open>\<open>el.remove()\<close> for an element of the container.\<close>

definition removeElement :: "element list \<Rightarrow> element \<Rightarrow> element list" where
  "removeElement kids e = filter (\<lambda>k. elemId k \<noteq> elemId e) kids"

definition stopMeteors :: "meteorState \<Rightarrow> meteorState" where
  "stopMeteors s =
     (let s1 = foldl clearTimeout s (activeMeteorTimeouts s);
          s2 = foldl clearTimeout s1 (activeShowerTimeouts s1);
          s3 = s2\<lparr>activeMeteorTimeouts := [], activeShowerTimeouts := [],
                 isShowerActive := False\<rparr>
      in case meteorsContainer s3 of
           None \<Rightarrow> s3
         | Some kids \<Rightarrow>
             s3\<lparr>meteorsContainer :=
                  Some (foldl removeElement kids (querySelectorAllMeteor kids))\<rparr>)"

definition setMeteorPageVisible :: "bool \<Rightarrow> meteorState \<Rightarrow> meteorState" where
  "setMeteorPageVisible visible s = s\<lparr>isPageVisible := visible\<rparr>"

definition restartMeteors :: "config \<Rightarrow> meteorState \<Rightarrow> meteorState" where
  "restartMeteors cfg s = startMeteors cfg (stopMeteors (s\<lparr>isShowerActive := False\<rparr>))"

text \<open>
  The host running the callback of a pending timer: the timer leaves the pending ones and
  its callback runs. The callbacks are the functions and closures that the module hands to
  \<open>setTimeout\<close>.
\<close>

definition runCallback :: "config \<Rightarrow> callback \<Rightarrow> meteorState \<Rightarrow> meteorState" where
  "runCallback cfg cb s =
     (case cb of
        CreateSingleMeteor \<Rightarrow> createSingleMeteor cfg s
      | TriggerMeteorShower \<Rightarrow> triggerMeteorShower cfg s
      | ShowerMeteor showerAngle \<Rightarrow>
          (if isPageVisible s then createMeteor cfg (Some showerAngle) s else s)
      | ShowerCleanup \<Rightarrow> scheduleNextShower cfg (s\<lparr>isShowerActive := False\<rparr>)
      | MeteorCleanup i \<Rightarrow>
          (case meteorsContainer s of
             None \<Rightarrow> s
           | Some kids \<Rightarrow>
               if isPageVisible s \<and> i \<in> elemId ` set kids
               then s\<lparr>meteorsContainer := Some (filter (\<lambda>k. elemId k \<noteq> i) kids)\<rparr>
               else s))"

definition fireTimer :: "config \<Rightarrow> nat \<Rightarrow> meteorState \<Rightarrow> meteorState" where
  "fireTimer cfg i s =
     (case find (\<lambda>t. timerId t = i) (timers s) of
        None \<Rightarrow> s
      | Some t \<Rightarrow> runCallback cfg (timerCallback t) (clearTimeout s i))"

section \<open>Vocabulary of the properties\<close>

text \<open>The cumulative sum of the category probabilities after the first \<open>k\<close>
  categories of a list.\<close>

definition cumulativeAt :: "spectralClass list \<Rightarrow> nat \<Rightarrow> real" where
  "cumulativeAt cs k = sum_list (map percentage (take k cs))"

text \<open>The meteor elements in the container; there are none without a container.\<close>

definition containerMeteors :: "meteorState \<Rightarrow> element list" where
  "containerMeteors s =
     (case meteorsContainer s of None \<Rightarrow> [] | Some kids \<Rightarrow> querySelectorAllMeteor kids)"

text \<open>Every draw of the source lies in the interval from 0 (included) to 1 (excluded), as
  those of \<open>Math.random()\<close> do.\<close>

definition unitRng :: "rng \<Rightarrow> bool" where
  "unitRng r = (\<forall>n. 0 \<le> r n \<and> r n < 1)"

text \<open>A star inside the canvas, and a star no farther than \<open>m\<close> from it in each
  coordinate.\<close>

definition inViewport :: "real \<Rightarrow> real \<Rightarrow> star \<Rightarrow> bool" where
  "inViewport w h st = (0 \<le> star_x st \<and> star_x st \<le> w \<and> 0 \<le> star_y st \<and> star_y st \<le> h)"

definition nearViewport :: "real \<Rightarrow> real \<Rightarrow> real \<Rightarrow> star \<Rightarrow> bool" where
  "nearViewport m w h st =
     (- m \<le> star_x st \<and> star_x st \<le> w + m \<and> - m \<le> star_y st \<and> star_y st \<le> h + m)"

section \<open>Sample data\<close>

text \<open>A twinkling star with a phase delay of one second and a cycle of four seconds.\<close>

definition star1 :: star where
  "star1 = \<lparr>star_x = 100, star_y = 50, star_size = 2, star_color = ''rgba(248, 247, 255,'',
            star_animation = Twinkling 1000 4000\<rparr>"








text \<open>The default configuration with the weight of the last spectral class lowered, so
  that the weights sum to 0.9.\<close>

definition lowConfig :: config where
  "lowConfig = CONFIG\<lparr>stars := CONFIG_stars\<lparr>spectralClasses :=
      [\<lparr>classType = ''O-B'', classColor = ''rgba(155, 176, 255,'', percentage = 0.05\<rparr>,
       \<lparr>classType = ''A'', classColor = ''rgba(202, 215, 255,'', percentage = 0.15\<rparr>,
       \<lparr>classType = ''F-G'', classColor = ''rgba(248, 247, 255,'', percentage = 0.3\<rparr>,
       \<lparr>classType = ''K'', classColor = ''rgba(255, 210, 161,'', percentage = 0.3\<rparr>,
       \<lparr>classType = ''M'', classColor = ''rgba(255, 204, 111,'', percentage = 0.1\<rparr>]\<rparr>\<rparr>"

text \<open>Draws that are all zero, and the meteor module after initialisation on a page with
  an empty meteors container and a hero diagonal of 2000 pixels, before any timer is set.\<close>

definition zeroRng :: rng where
  "zeroRng = (\<lambda>n. 0)"

definition meteorInit :: meteorState where
  "meteorInit = \<lparr>meteorsContainer = Some [], heroDiagonal = 2000,
     isShowerActive = False, isPageVisible = True,
     activeMeteorTimeouts = [], activeShowerTimeouts = [],
     meteorKeyframes = None, timers = [], nextTimerId = 1, nextElemId = 0,
     m_rng = zeroRng\<rparr>"

text \<open>Draws that are all zero but the eighth, which is one half: the first star gets a
  companion in the direction \<open>pi\<close>. With them, the state before a first generation, and the
  first two stars that the generation pushes.\<close>

definition companionRng :: rng where
  "companionRng = (\<lambda>n. if n = 7 then 1 / 2 else 0)"

definition companionState :: starState where
  "companionState = \<lparr>st_stars = [], st_planets = [], st_rng = companionRng\<rparr>"

definition companionPrimary :: star where
  "companionPrimary = \<lparr>star_x = 0, star_y = 0, star_size = 1,
     star_color = ''rgba(155, 176, 255,'', star_animation = Static 0.4\<rparr>"

definition companionStar :: star where
  "companionStar = \<lparr>star_x = - 2, star_y = 0, star_size = 0.6,
     star_color = ''rgba(155, 176, 255,'', star_animation = Static 0.4\<rparr>"

section \<open>The easing function\<close>

lemma easeInOutSine_alt: "easeInOutSine t = (1 - cos (pi * t)) / 2"
  by (simp add: easeInOutSine_def)

lemma easeInOutSine_range: "0 \<le> easeInOutSine t \<and> easeInOutSine t \<le> 1"
proof -
  have "- 1 \<le> cos (pi * t)" "cos (pi * t) \<le> 1" by simp_all
  then show ?thesis unfolding easeInOutSine_alt by simp
qed

text \<open>
  C1, as stated: the easing function is zero at \<open>t = 0\<close> and at \<open>t = 1\<close> and one at
  \<open>t = 1/2\<close>. The source function takes the value one at \<open>t = 1\<close>, so the statement fails
  there.
\<close>

theorem C1_ease_endpoint_counterexample:
  "\<not> (easeInOutSine 0 = 0 \<and> easeInOutSine 1 = 0 \<and> easeInOutSine (1/2) = 1)"
  by (simp add: easeInOutSine_def)

text \<open>
  C1, amended: \<open>easeInOutSine t = (1 - cos (pi t)) / 2\<close>, with value zero at \<open>t = 0\<close>,
  one half at \<open>t = 1/2\<close> and one at \<open>t = 1\<close>: it is zero at the start of the cycle only
  and rises to its peak at the end of the cycle.
\<close>

theorem C1_ease_values:
  "easeInOutSine t = (1 - cos (pi * t)) / 2 \<and>
   easeInOutSine 0 = 0 \<and> easeInOutSine (1/2) = 1/2 \<and> easeInOutSine 1 = 1"
  by (simp add: easeInOutSine_def)

section \<open>The twinkle animator\<close>

lemma js_rem_period:
  assumes "0 < d" and "0 \<le> e"
  shows "js_rem (e + d) d = js_rem e d"
proof -
  have "(e + d) / d = e / d + 1" using assms by (simp add: field_simps)
  moreover have "0 \<le> e / d" using assms by simp
  ultimately show ?thesis using assms
    by (simp add: js_rem_def js_trunc_def algebra_simps)
qed

lemma js_rem_range:
  assumes "0 < d" and "0 \<le> e"
  shows "\<exists>r. js_rem e d = Some r \<and> 0 \<le> r \<and> r < d"
proof -
  have nn: "0 \<le> e / d" using assms by simp
  have "d * of_int \<lfloor>e / d\<rfloor> \<le> d * (e / d)"
    using assms by (intro mult_left_mono) simp_all
  then have a: "d * of_int \<lfloor>e / d\<rfloor> \<le> e" using assms by simp
  have "e / d < of_int \<lfloor>e / d\<rfloor> + 1" by linarith
  then have "d * (e / d) < d * (of_int \<lfloor>e / d\<rfloor> + 1)"
    using assms by (intro mult_strict_left_mono) simp_all
  then have b: "e < d * of_int \<lfloor>e / d\<rfloor> + d" using assms by (simp add: algebra_simps)
  show ?thesis using assms nn a b by (simp add: js_rem_def js_trunc_def)
qed

text \<open>
  In exact arithmetic the opacity of a twinkling star with cycle duration \<open>d > 0\<close> is
  periodic from the phase delay on, and it is the configured minimum before the phase
  delay.
\<close>

lemma twinkle_periodic_exact:
  assumes "0 < d" and "star_animation s = Twinkling delay d"
  shows "(delay \<le> t - startTime \<longrightarrow>
            getTwinkleOpacity cfg startTime s (t + d) = getTwinkleOpacity cfg startTime s t) \<and>
         (t - startTime < delay \<longrightarrow>
            getTwinkleOpacity cfg startTime s t = Some (twinkleOpacityMin (stars cfg)))"
proof (intro conjI impI)
  assume past: "delay \<le> t - startTime"
  then have e: "0 \<le> t - startTime - delay" by simp
  have eq: "t + d - startTime - delay = (t - startTime - delay) + d" by simp
  have "js_rem (t + d - startTime - delay) d = js_rem (t - startTime - delay) d"
    unfolding eq by (rule js_rem_period [OF assms(1) e])
  moreover have "\<not> t + d - startTime - delay < 0" using e assms(1) by linarith
  moreover have "\<not> t - startTime - delay < 0" using e by linarith
  ultimately show "getTwinkleOpacity cfg startTime s (t + d) = getTwinkleOpacity cfg startTime s t"
    using assms(2) by (simp add: getTwinkleOpacity_def Let_def)
next
  assume "t - startTime < delay"
  then show "getTwinkleOpacity cfg startTime s t = Some (twinkleOpacityMin (stars cfg))"
    using assms(2) by (simp add: getTwinkleOpacity_def Let_def)
qed

text \<open>
  C9: for a twinkling star with positive cycle duration, at every time the opacity is a
  number within the configured range from \<open>twinkleOpacityMin\<close> to \<open>twinkleOpacityMax\<close>,
  which is 0.4 to 1.0 in the default configuration.
\<close>

theorem C9_twinkle_range:
  assumes "0 < d" and "star_animation s = Twinkling delay d"
    and "twinkleOpacityMin (stars cfg) \<le> twinkleOpacityMax (stars cfg)"
  shows "\<exists>v. getTwinkleOpacity cfg startTime s t = Some v \<and>
             twinkleOpacityMin (stars cfg) \<le> v \<and> v \<le> twinkleOpacityMax (stars cfg)"
proof (cases "t - startTime - delay < 0")
  case True
  then show ?thesis using assms by (simp add: getTwinkleOpacity_def Let_def)
next
  case False
  then have "0 \<le> t - startTime - delay" by simp
  from js_rem_range [OF assms(1) this] obtain r where
    r: "js_rem (t - startTime - delay) d = Some r" by blast
  define e where "e = easeInOutSine (r / d)"
  define lo where "lo = twinkleOpacityMin (stars cfg)"
  define hi where "hi = twinkleOpacityMax (stars cfg)"
  have e01: "0 \<le> e" "e \<le> 1" using easeInOutSine_range [of "r / d"] by (simp_all add: e_def)
  have le: "lo \<le> hi" using assms(3) by (simp add: lo_def hi_def)
  have "0 \<le> e * (hi - lo)" using e01 le by simp
  moreover have "e * (hi - lo) \<le> 1 * (hi - lo)" using e01 le by (intro mult_right_mono) simp_all
  ultimately have "lo \<le> lo + e * (hi - lo)" "lo + e * (hi - lo) \<le> hi" by simp_all
  then show ?thesis using False r assms(2)
    by (simp add: getTwinkleOpacity_def Let_def e_def lo_def hi_def)
qed

theorem C9_twinkle_range_witness:
  "\<exists>v. getTwinkleOpacity CONFIG 0 star1 3000 = Some v \<and> 0.4 \<le> v \<and> v \<le> 1.0"
  using C9_twinkle_range [of 4000 star1 1000 CONFIG 0 3000]
  by (simp add: star1_def CONFIG_def CONFIG_stars_def)

section \<open>The twinkle animator in binary64 arithmetic\<close>



















































section \<open>The weighted categorical sampler\<close>

lemma spectralWalk_first:
  "i < length cs \<Longrightarrow> rand \<le> c0 + sum_list (map percentage (take (Suc i) cs)) \<Longrightarrow>
   (\<forall>j<i. c0 + sum_list (map percentage (take (Suc j) cs)) < rand) \<Longrightarrow>
   spectralWalk cs c0 rand = Some (classColor (cs ! i))"
proof (induction cs arbitrary: i c0)
  case Nil
  then show ?case by simp
next
  case (Cons c cs)
  show ?case
  proof (cases i)
    case 0
    with Cons.prems show ?thesis by (simp add: Let_def)
  next
    case (Suc k)
    have first: "c0 + percentage c < rand"
      using Cons.prems(3) [rule_format, of 0] Suc by simp
    have "spectralWalk cs (c0 + percentage c) rand = Some (classColor (cs ! k))"
    proof (rule Cons.IH)
      show "k < length cs" using Cons.prems(1) Suc by simp
      show "rand \<le> c0 + percentage c + sum_list (map percentage (take (Suc k) cs))"
        using Cons.prems(2) Suc by (simp add: add.assoc)
      show "\<forall>j<k. c0 + percentage c + sum_list (map percentage (take (Suc j) cs)) < rand"
      proof (intro allI impI)
        fix j assume "j < k"
        then have "Suc j < i" using Suc by simp
        from Cons.prems(3) [rule_format, OF this] show
          "c0 + percentage c + sum_list (map percentage (take (Suc j) cs)) < rand"
          by (simp add: add.assoc)
      qed
    qed
    with first Suc show ?thesis by (simp add: Let_def)
  qed
qed

lemma spectralWalk_none:
  "(\<forall>j<length cs. c0 + sum_list (map percentage (take (Suc j) cs)) < rand) \<Longrightarrow>
   spectralWalk cs c0 rand = None"
proof (induction cs arbitrary: c0)
  case Nil
  then show ?case by simp
next
  case (Cons c cs)
  have first: "c0 + percentage c < rand" using Cons.prems [rule_format, of 0] by simp
  have "spectralWalk cs (c0 + percentage c) rand = None"
  proof (rule Cons.IH, intro allI impI)
    fix j assume "j < length cs"
    then have "Suc j < length (c # cs)" by simp
    from Cons.prems [rule_format, OF this] show
      "c0 + percentage c + sum_list (map percentage (take (Suc j) cs)) < rand"
      by (simp add: add.assoc)
  qed
  with first show ?case by (simp add: Let_def)
qed

lemma sum_take_le:
  "(\<forall>c\<in>set cs. 0 \<le> percentage c) \<Longrightarrow>
   sum_list (map percentage (take k cs)) \<le> sum_list (map percentage cs)"
proof -
  assume nn: "\<forall>c\<in>set cs. 0 \<le> percentage c"
  have "sum_list (map percentage cs) =
        sum_list (map percentage (take k cs)) + sum_list (map percentage (drop k cs))"
    by (metis append_take_drop_id map_append sum_list_append)
  moreover have "0 \<le> sum_list (map percentage (drop k cs))"
    using nn by (intro sum_list_nonneg) (auto dest: in_set_dropD)
  ultimately show ?thesis by simp
qed

text \<open>
  C3, as stated: a draw above the final cumulative sum returns the last category of the
  list. With weights that sum to 0.9 the draw 0.95 returns the colour of the third class
  (F-G), not that of the last one (M).
\<close>

theorem C3_fallback_counterexample:
  "sum_list (map percentage (spectralClasses (stars lowConfig))) < 0.95 \<and>
   getSpectralColor lowConfig 0.95 = Inr ''rgba(248, 247, 255,'' \<and>
   getSpectralColor lowConfig 0.95 \<noteq> Inr (classColor (last (spectralClasses (stars lowConfig))))"
  by (simp add: lowConfig_def CONFIG_def CONFIG_stars_def getSpectralColor_def Let_def)

text \<open>
  C3, amended: the sampler walks the cumulative sum of the category probabilities in list
  order and returns the first label whose cumulative sum meets or exceeds the draw; for a
  draw that exceeds the final cumulative sum of non-negative probabilities it returns the
  third category of the list (index 2), given that the list has one.
\<close>

theorem C3_sampler:
  fixes cfg :: config and rand :: real
  defines "cs \<equiv> spectralClasses (stars cfg)"
  shows "(i < length cs \<and> rand \<le> cumulativeAt cs (Suc i) \<and>
           (\<forall>j<i. cumulativeAt cs (Suc j) < rand)
          \<longrightarrow> getSpectralColor cfg rand = Inr (classColor (cs ! i))) \<and>
         ((\<forall>c\<in>set cs. 0 \<le> percentage c) \<and> cumulativeAt cs (length cs) < rand \<and> 2 < length cs
          \<longrightarrow> getSpectralColor cfg rand = Inr (classColor (cs ! 2)))"
proof (intro conjI impI)
  assume a: "i < length cs \<and> rand \<le> cumulativeAt cs (Suc i) \<and>
             (\<forall>j<i. cumulativeAt cs (Suc j) < rand)"
  have "spectralWalk cs 0 rand = Some (classColor (cs ! i))"
    using a by (intro spectralWalk_first) (simp_all add: cumulativeAt_def)
  then show "getSpectralColor cfg rand = Inr (classColor (cs ! i))"
    by (simp add: getSpectralColor_def cs_def)
next
  assume b: "(\<forall>c\<in>set cs. 0 \<le> percentage c) \<and> cumulativeAt cs (length cs) < rand \<and>
             2 < length cs"
  have "spectralWalk cs 0 rand = None"
  proof (rule spectralWalk_none, intro allI impI)
    fix j assume "j < length cs"
    have "sum_list (map percentage (take (Suc j) cs)) \<le> sum_list (map percentage cs)"
      using b by (intro sum_take_le) simp
    then show "0 + sum_list (map percentage (take (Suc j) cs)) < rand"
      using b by (simp add: cumulativeAt_def)
  qed
  then show "getSpectralColor cfg rand = Inr (classColor (cs ! 2))"
    using b by (simp add: getSpectralColor_def cs_def)
qed

theorem C3_sampler_witness:
  "getSpectralColor CONFIG 0.1 = Inr ''rgba(202, 215, 255,'' \<and>
   getSpectralColor lowConfig 0.95 = Inr ''rgba(248, 247, 255,''"
  using C3_sampler [where i = 1 and cfg = CONFIG and rand = "0.1"]
        C3_sampler [where i = 0 and cfg = lowConfig and rand = "0.95"]
  by (simp add: cumulativeAt_def lowConfig_def CONFIG_def CONFIG_stars_def)

section \<open>Generation with invalid dimensions\<close>

lemma getSpectralColor_no_error:
  "2 < length (spectralClasses (stars cfg)) \<Longrightarrow> \<exists>c. getSpectralColor cfg rand = Inr c"
  by (simp add: getSpectralColor_def split: option.splits)

lemma starIteration_no_error:
  assumes "2 < length (spectralClasses (stars cfg))"
  shows "\<exists>pushed. fst (starIteration cfg w h r) = Inr pushed"
proof -
  obtain c where "getSpectralColor cfg (fst (random (snd (random (snd (random (snd (random r)))))))) = Inr c"
    using getSpectralColor_no_error [OF assms] by blast
  then show ?thesis
    by (simp add: starIteration_def Let_def split_beta)
qed

lemma starLoop_no_error:
  assumes "2 < length (spectralClasses (stars cfg))"
  shows "fst (starLoop cfg w h n acc r) = None"
proof (induction n arbitrary: acc r)
  case 0
  show ?case by simp
next
  case (Suc n)
  obtain pushed where p: "fst (starIteration cfg w h r) = Inr pushed"
    using starIteration_no_error [OF assms] by blast
  then obtain r' where "starIteration cfg w h r = (Inr pushed, r')"
    by (cases "starIteration cfg w h r") simp
  then show ?case using Suc.IH by simp
qed

lemma planetLoop_length:
  "length (fst (planetLoop cfg w h ps i acc r)) = length acc + length ps"
  by (induction ps arbitrary: i acc r) (simp_all add: Let_def split_beta)

lemma generateStars_invalid:
  "js_not cw \<or> js_not ch \<or> js_le0 cw \<or> js_le0 ch \<Longrightarrow>
   generateStars cfg iw cw ch s = (None, s\<lparr>st_stars := []\<rparr>)"
  by (simp add: generateStars_def)

lemma generateStars_valid_planets:
  assumes "2 < length (spectralClasses (stars cfg))" and "0 < w" and "0 < h"
  shows "length (st_planets (snd (generateStars cfg iw (Some w) (Some h) s))) = length (planets cfg)"
proof -
  obtain e acc r where l: "starLoop cfg w h (nat (getStarCount cfg iw)) [] (st_rng s) = (e, acc, r)"
    by (cases "starLoop cfg w h (nat (getStarCount cfg iw)) [] (st_rng s)") auto
  have "e = None" using starLoop_no_error [OF assms(1), of w h "nat (getStarCount cfg iw)" "[]" "st_rng s"] l
    by simp
  obtain ps r' where pl: "planetLoop cfg w h (planets cfg) 0 [] r = (ps, r')"
    by (cases "planetLoop cfg w h (planets cfg) 0 [] r") auto
  have "length ps = length (planets cfg)"
    using planetLoop_length [of cfg w h "planets cfg" 0 "[]" r] pl by simp
  then show ?thesis using assms(2,3) l \<open>e = None\<close> pl
    by (simp add: generateStars_def js_not_def js_le0_def Let_def)
qed

text \<open>
  C4: a call with invalid dimensions is to leave both the star list and the planet list
  empty. The early return of \<open>generateStars\<close> clears \<open>stars\<close> only: after a generation
  for a 1920 by 1080 canvas, a call with width and height zero returns without an
  exception and with no stars, and the five planets of the earlier population remain.
\<close>

theorem C4_planets_survive_invalid_dimensions:
  "(let s1 = snd (generateStars CONFIG innerWidth (Some 1920) (Some 1080) s);
        (e, s2) = generateStars CONFIG innerWidth (Some 0) (Some 0) s1
    in e = None \<and> st_stars s2 = [] \<and> length (st_planets s2) = 5)"
proof -
  have "length (st_planets (snd (generateStars CONFIG innerWidth (Some 1920) (Some 1080) s))) =
        length (planets CONFIG)"
    by (rule generateStars_valid_planets) (simp_all add: CONFIG_def CONFIG_stars_def)
  then show ?thesis
    by (simp add: generateStars_invalid js_not_def Let_def CONFIG_def CONFIG_planets_def)
qed

section \<open>Stopping the meteors\<close>

lemma foldl_clearTimeout:
  "foldl clearTimeout s ids = s\<lparr>timers := filter (\<lambda>t. timerId t \<notin> set ids) (timers s)\<rparr>"
proof (induction ids arbitrary: s)
  case Nil
  show ?case by simp
next
  case (Cons i ids)
  have "foldl clearTimeout s (i # ids) = foldl clearTimeout (clearTimeout s i) ids"
    by simp
  also have "\<dots> = (clearTimeout s i)\<lparr>timers :=
      filter (\<lambda>t. timerId t \<notin> set ids) (timers (clearTimeout s i))\<rparr>"
    by (rule Cons.IH)
  also have "\<dots> = s\<lparr>timers := filter (\<lambda>t. timerId t \<notin> set (i # ids)) (timers s)\<rparr>"
    by (simp add: clearTimeout_def conj_commute)
  finally show ?case .
qed

lemma foldl_removeElement:
  "foldl removeElement kids es = filter (\<lambda>k. elemId k \<notin> elemId ` set es) kids"
proof (induction es arbitrary: kids)
  case Nil
  show ?case by simp
next
  case (Cons e es)
  have "foldl removeElement kids (e # es) = foldl removeElement (removeElement kids e) es"
    by simp
  also have "\<dots> = filter (\<lambda>k. elemId k \<notin> elemId ` set es) (removeElement kids e)"
    by (rule Cons.IH)
  also have "\<dots> = filter (\<lambda>k. elemId k \<notin> elemId ` set (e # es)) kids"
    by (simp add: removeElement_def conj_commute)
  finally show ?case .
qed

lemma stopMeteors_eq:
  "stopMeteors s =
     s\<lparr>timers := filter (\<lambda>t. timerId t \<notin> set (activeMeteorTimeouts s) \<and>
                             timerId t \<notin> set (activeShowerTimeouts s)) (timers s),
       activeMeteorTimeouts := [], activeShowerTimeouts := [], isShowerActive := False,
       meteorsContainer :=
         map_option (\<lambda>kids. filter (\<lambda>k. elemId k \<notin> elemId ` set (querySelectorAllMeteor kids)) kids)
           (meteorsContainer s)\<rparr>"
  by (cases "meteorsContainer s")
     (simp_all add: stopMeteors_def Let_def foldl_clearTimeout foldl_removeElement conj_commute)

lemma no_meteor_left:
  "querySelectorAllMeteor (filter (\<lambda>k. elemId k \<notin> elemId ` set (querySelectorAllMeteor kids)) kids) = []"
  by (auto simp: querySelectorAllMeteor_def filter_empty_conv)

text \<open>
  C10: whatever the state before, after \<open>stopMeteors\<close> both lists of tracked timeouts are
  empty, the shower flag is false and no meteor element is left in the container; a
  second \<open>stopMeteors\<close> changes nothing.
\<close>

theorem C10_stopMeteors_idempotent:
  "activeMeteorTimeouts (stopMeteors s) = [] \<and>
   activeShowerTimeouts (stopMeteors s) = [] \<and>
   \<not> isShowerActive (stopMeteors s) \<and>
   containerMeteors (stopMeteors s) = [] \<and>
   stopMeteors (stopMeteors s) = stopMeteors s"
proof -
  have post: "activeMeteorTimeouts (stopMeteors s) = []" "activeShowerTimeouts (stopMeteors s) = []"
    "\<not> isShowerActive (stopMeteors s)"
    by (simp_all add: stopMeteors_eq)
  have cm: "containerMeteors (stopMeteors s) = []"
    by (cases "meteorsContainer s") (simp_all add: containerMeteors_def stopMeteors_eq no_meteor_left)
  have "stopMeteors (stopMeteors s) = stopMeteors s"
    apply (subst stopMeteors_eq [of "stopMeteors s"])
    apply (cases "meteorsContainer s")
     apply (simp_all add: stopMeteors_eq no_meteor_left)
    done
  with post cm show ?thesis by simp
qed

section \<open>The keyframe table\<close>

lemma displacement_magnitude:
  "sqrt ((cos a * d)\<^sup>2 + (sin a * d)\<^sup>2) = \<bar>d\<bar>"
proof -
  have "(cos a * d)\<^sup>2 + (sin a * d)\<^sup>2 = ((cos a)\<^sup>2 + (sin a)\<^sup>2) * d\<^sup>2"
    by (simp only: power_mult_distrib distrib_right)
  also have "\<dots> = d\<^sup>2" by (simp only: cos_squared_eq) simp
  finally show ?thesis by simp
qed

lemma displacement_direction:
  assumes "pi / 2 < a" and "a < pi" and "0 < d"
  shows "js_atan2 (sin a * d) (cos a * d) = a"
proof -
  have c: "cos a < 0"
  proof -
    have "0 < cos (a - pi)" using assms by (intro cos_gt_zero_pi) simp_all
    then show ?thesis by simp
  qed
  have s: "0 < sin a" using assms by (intro sin_gt_zero) (simp_all, linarith?)
  have x: "cos a * d < 0" using c assms(3) by (simp add: mult_neg_pos)
  have y: "0 \<le> sin a * d" using s assms(3) by simp
  have "(sin a * d) / (cos a * d) = tan a" using assms(3) by (simp add: tan_def)
  also have "\<dots> = tan (a - pi)" using tan_periodic_pi [of "a - pi"] by simp
  finally have "arctan ((sin a * d) / (cos a * d)) = arctan (tan (a - pi))" by simp
  also have "\<dots> = a - pi" using assms by (intro arctan_tan) simp_all
  finally show ?thesis using x y by (simp add: js_atan2_def)
qed

lemma meteor_angle_quadrant:
  assumes "angle \<in> set METEOR_ANGLES"
  shows "pi / 2 < (angle * pi) / 180 \<and> (angle * pi) / 180 < pi"
proof -
  have "130 \<le> angle \<and> angle \<le> 165" using assms by (auto simp: METEOR_ANGLES_def)
  then have "pi / 2 * 180 < angle * pi" "angle * pi < pi * 180"
    using pi_gt_zero by (simp_all add: mult.commute [of angle pi])
  then show ?thesis by simp
qed

lemma distances_pos: "25 < d \<Longrightarrow> 0 < distances d tier"
  by (cases tier) simp_all

lemma meteorKeyframe_vector:
  assumes "angle \<in> set METEOR_ANGLES" and "25 < d"
  shows "sqrt ((endX (meteorKeyframe d angle tier))\<^sup>2 + (endY (meteorKeyframe d angle tier))\<^sup>2) =
           distances d tier \<and>
         js_atan2 (endY (meteorKeyframe d angle tier)) (endX (meteorKeyframe d angle tier)) =
           (angle * pi) / 180"
proof -
  have p: "0 < distances d tier" using assms(2) by (rule distances_pos)
  have q: "pi / 2 < (angle * pi) / 180" "(angle * pi) / 180 < pi"
    using meteor_angle_quadrant [OF assms(1)] by simp_all
  show ?thesis
    using displacement_magnitude [of "(angle * pi) / 180" "distances d tier"]
          displacement_direction [OF q p] p
    by (simp add: meteorKeyframe_def Let_def)
qed

lemma keyframesCSS_set:
  "k \<in> set (keyframesCSS d) \<Longrightarrow>
   \<exists>angle\<in>set METEOR_ANGLES. \<exists>tier. k = meteorKeyframe d angle tier"
  by (auto simp: keyframesCSS_def)

lemma keyframesCSS_names:
  "map (\<lambda>k. (kf_angle k, kf_tier k)) (keyframesCSS d) = List.product METEOR_ANGLES DISTANCE_TIERS"
  by (simp add: keyframesCSS_def METEOR_ANGLES_def DISTANCE_TIERS_def meteorKeyframe_def Let_def)

lemma keyframesCSS_length: "length (keyframesCSS d) = 24"
  by (simp add: keyframesCSS_def METEOR_ANGLES_def DISTANCE_TIERS_def)

text \<open>
  C5, as stated for every positive diagonal: at diagonal 10 the short tier distance is
  \<open>-15\<close>, and the first rule of the table (angle 130, tier short) has a displacement of
  magnitude 15.
\<close>

theorem C5_short_tier_counterexample:
  "(0::real) < 10 \<and>
   hd (keyframesCSS 10) = meteorKeyframe 10 130 Short \<and>
   sqrt ((endX (meteorKeyframe 10 130 Short))\<^sup>2 + (endY (meteorKeyframe 10 130 Short))\<^sup>2) = 15 \<and>
   distances 10 Short = - 15 \<and>
   sqrt ((endX (meteorKeyframe 10 130 Short))\<^sup>2 + (endY (meteorKeyframe 10 130 Short))\<^sup>2) \<noteq>
     distances 10 (kf_tier (meteorKeyframe 10 130 Short))"
  using displacement_magnitude [of "(130 * pi) / 180" "- 15"]
  by (simp add: keyframesCSS_def METEOR_ANGLES_def DISTANCE_TIERS_def meteorKeyframe_def Let_def)

text \<open>
  C5, amended: with a viewport diagonal above 25, so that every tier distance is
  positive, the generated table has exactly 24 rules, one for each pair of an angle of the
  8-angle set and a tier, in that order, and the displacement of each rule has magnitude
  equal to its tier distance and direction equal to its angle in radians.
\<close>

theorem C5_keyframe_vectors:
  assumes "25 < heroDiagonal s"
  shows "\<exists>ks. meteorKeyframes (generateMeteorKeyframes s) = Some ks \<and>
           length ks = 24 \<and>
           map (\<lambda>k. (kf_angle k, kf_tier k)) ks = List.product METEOR_ANGLES DISTANCE_TIERS \<and>
           (\<forall>k\<in>set ks.
              sqrt ((endX k)\<^sup>2 + (endY k)\<^sup>2) = distances (heroDiagonal s) (kf_tier k) \<and>
              js_atan2 (endY k) (endX k) = (kf_angle k * pi) / 180)"
proof -
  have gen: "meteorKeyframes (generateMeteorKeyframes s) = Some (keyframesCSS (heroDiagonal s))"
    using assms by (simp add: generateMeteorKeyframes_def)
  have vec: "\<forall>k\<in>set (keyframesCSS (heroDiagonal s)).
              sqrt ((endX k)\<^sup>2 + (endY k)\<^sup>2) = distances (heroDiagonal s) (kf_tier k) \<and>
              js_atan2 (endY k) (endX k) = (kf_angle k * pi) / 180"
  proof
    fix k assume "k \<in> set (keyframesCSS (heroDiagonal s))"
    then obtain angle tier where a: "angle \<in> set METEOR_ANGLES"
      and k: "k = meteorKeyframe (heroDiagonal s) angle tier"
      using keyframesCSS_set by blast
    have "kf_angle k = angle" "kf_tier k = tier" by (simp_all add: k meteorKeyframe_def Let_def)
    then show "sqrt ((endX k)\<^sup>2 + (endY k)\<^sup>2) = distances (heroDiagonal s) (kf_tier k) \<and>
               js_atan2 (endY k) (endX k) = (kf_angle k * pi) / 180"
      using meteorKeyframe_vector [OF a assms, of tier] k by simp
  qed
  show ?thesis using gen vec keyframesCSS_length keyframesCSS_names by simp
qed

theorem C5_keyframe_vectors_witness:
  "25 < heroDiagonal meteorInit \<and>
   (\<exists>ks. meteorKeyframes (generateMeteorKeyframes meteorInit) = Some ks \<and>
         length ks = 24 \<and>
         (\<forall>k\<in>set ks.
            sqrt ((endX k)\<^sup>2 + (endY k)\<^sup>2) = distances 2000 (kf_tier k) \<and>
            js_atan2 (endY k) (endX k) = (kf_angle k * pi) / 180))"
proof -
  have h: "25 < heroDiagonal meteorInit" by (simp add: meteorInit_def)
  have d: "heroDiagonal meteorInit = 2000" by (simp add: meteorInit_def)
  show ?thesis using h C5_keyframe_vectors [OF h] unfolding d by blast
qed

section \<open>Shower angle selection\<close>

lemma closer_foldl:
  "\<exists>i\<le>length xs.
     foldl (closer b) x xs = (x # xs) ! i \<and>
     (\<forall>j<i. \<bar>(x # xs) ! i - b\<bar> < \<bar>(x # xs) ! j - b\<bar>) \<and>
     (\<forall>j\<le>length xs. \<bar>(x # xs) ! i - b\<bar> \<le> \<bar>(x # xs) ! j - b\<bar>)"
proof (induction xs rule: rev_induct)
  case Nil
  show ?case by simp
next
  case (snoc y xs)
  then obtain i where i: "i \<le> length xs" "foldl (closer b) x xs = (x # xs) ! i"
    "\<forall>j<i. \<bar>(x # xs) ! i - b\<bar> < \<bar>(x # xs) ! j - b\<bar>"
    "\<forall>j\<le>length xs. \<bar>(x # xs) ! i - b\<bar> \<le> \<bar>(x # xs) ! j - b\<bar>"
    by blast
  have nth_old: "\<And>j. j \<le> length xs \<Longrightarrow> (x # xs @ [y]) ! j = (x # xs) ! j"
    by (metis Cons_eq_appendI length_Cons less_Suc_eq_le nth_append)
  have nth_new: "(x # xs @ [y]) ! Suc (length xs) = y"
    by (metis append_Cons length_Cons nth_append_length)
  show ?case
  proof (cases "\<bar>y - b\<bar> < \<bar>(x # xs) ! i - b\<bar>")
    case True
    have r: "foldl (closer b) x (xs @ [y]) = y" using True i(2) by (simp add: closer_def)
    show ?thesis
    proof (intro exI [of _ "Suc (length xs)"] conjI allI impI)
      show "Suc (length xs) \<le> length (xs @ [y])" by simp
      show "foldl (closer b) x (xs @ [y]) = (x # xs @ [y]) ! Suc (length xs)"
        using r nth_new by simp
    next
      fix j assume "j < Suc (length xs)"
      then have j: "j \<le> length xs" by simp
      then have "\<bar>(x # xs) ! i - b\<bar> \<le> \<bar>(x # xs) ! j - b\<bar>" using i(4) by blast
      then show "\<bar>(x # xs @ [y]) ! Suc (length xs) - b\<bar> < \<bar>(x # xs @ [y]) ! j - b\<bar>"
        using True nth_old [OF j] nth_new by simp
    next
      fix j assume "j \<le> length (xs @ [y])"
      then consider "j \<le> length xs" | "j = Suc (length xs)" by fastforce
      then show "\<bar>(x # xs @ [y]) ! Suc (length xs) - b\<bar> \<le> \<bar>(x # xs @ [y]) ! j - b\<bar>"
      proof cases
        case 1
        then have "\<bar>(x # xs) ! i - b\<bar> \<le> \<bar>(x # xs) ! j - b\<bar>" using i(4) by blast
        then show ?thesis using True nth_old [OF 1] nth_new by simp
      next
        case 2
        then show ?thesis by simp
      qed
    qed
  next
    case False
    have r: "foldl (closer b) x (xs @ [y]) = (x # xs) ! i" using False i(2) by (simp add: closer_def)
    show ?thesis
    proof (intro exI [of _ i] conjI allI impI)
      show "i \<le> length (xs @ [y])" using i(1) by simp
      show "foldl (closer b) x (xs @ [y]) = (x # xs @ [y]) ! i"
        using r nth_old [OF i(1)] by simp
    next
      fix j assume ji: "j < i"
      then have j: "j \<le> length xs" using i(1) by simp
      show "\<bar>(x # xs @ [y]) ! i - b\<bar> < \<bar>(x # xs @ [y]) ! j - b\<bar>"
        using i(3) ji nth_old [OF j] nth_old [OF i(1)] by simp
    next
      fix j assume "j \<le> length (xs @ [y])"
      then consider "j \<le> length xs" | "j = Suc (length xs)" by fastforce
      then show "\<bar>(x # xs @ [y]) ! i - b\<bar> \<le> \<bar>(x # xs @ [y]) ! j - b\<bar>"
      proof cases
        case 1
        then show ?thesis using i(4) nth_old [OF 1] nth_old [OF i(1)] by simp
      next
        case 2
        then show ?thesis using False nth_new nth_old [OF i(1)] by simp
      qed
    qed
  qed
qed

text \<open>
  C6: for every real seed angle, shower angle selection returns a member of the set of
  preset angles whose absolute difference from the seed is least, and every preset that
  comes earlier in the set is strictly farther from the seed, so a tie goes to the
  candidate met first; for seed 158 the selected angle is 160, and the seed 132.5, midway
  between 130 and 135, selects 130.
\<close>

theorem C6_selectMeteorAngle_nearest:
  "(\<exists>i<length METEOR_ANGLES.
      selectMeteorAngle (Some b) r = (Inr (Some (METEOR_ANGLES ! i)), r) \<and>
      (\<forall>j<length METEOR_ANGLES. \<bar>METEOR_ANGLES ! i - b\<bar> \<le> \<bar>METEOR_ANGLES ! j - b\<bar>) \<and>
      (\<forall>j<i. \<bar>METEOR_ANGLES ! i - b\<bar> < \<bar>METEOR_ANGLES ! j - b\<bar>)) \<and>
   selectMeteorAngle (Some 158) r = (Inr (Some 160), r) \<and>
   selectMeteorAngle (Some 132.5) r = (Inr (Some 130), r)"
proof (intro conjI)
  define rest :: "real list" where "rest = [135, 140, 145, 150, 155, 160, 165]"
  have ma: "METEOR_ANGLES = 130 # rest" by (simp add: METEOR_ANGLES_def rest_def)
  obtain i where i: "i \<le> length rest" "foldl (closer b) 130 rest = (130 # rest) ! i"
    "\<forall>j<i. \<bar>(130 # rest) ! i - b\<bar> < \<bar>(130 # rest) ! j - b\<bar>"
    "\<forall>j\<le>length rest. \<bar>(130 # rest) ! i - b\<bar> \<le> \<bar>(130 # rest) ! j - b\<bar>"
    using closer_foldl [of rest b 130] by blast
  have sel: "selectMeteorAngle (Some b) r = (Inr (Some (METEOR_ANGLES ! i)), r)"
    using i(2) by (simp add: selectMeteorAngle_def reduce_def ma)
  have "i < length METEOR_ANGLES" using i(1) by (simp add: ma)
  moreover have "\<forall>j<length METEOR_ANGLES. \<bar>METEOR_ANGLES ! i - b\<bar> \<le> \<bar>METEOR_ANGLES ! j - b\<bar>"
    using i(4) by (simp add: ma less_Suc_eq_le)
  moreover have "\<forall>j<i. \<bar>METEOR_ANGLES ! i - b\<bar> < \<bar>METEOR_ANGLES ! j - b\<bar>"
    using i(3) by (simp add: ma)
  ultimately show "\<exists>i<length METEOR_ANGLES.
      selectMeteorAngle (Some b) r = (Inr (Some (METEOR_ANGLES ! i)), r) \<and>
      (\<forall>j<length METEOR_ANGLES. \<bar>METEOR_ANGLES ! i - b\<bar> \<le> \<bar>METEOR_ANGLES ! j - b\<bar>) \<and>
      (\<forall>j<i. \<bar>METEOR_ANGLES ! i - b\<bar> < \<bar>METEOR_ANGLES ! j - b\<bar>)"
    using sel by blast
next
  show "selectMeteorAngle (Some 158) r = (Inr (Some 160), r)"
    by (simp add: selectMeteorAngle_def reduce_def METEOR_ANGLES_def closer_def)
next
  show "selectMeteorAngle (Some 132.5) r = (Inr (Some 130), r)"
    by (simp add: selectMeteorAngle_def reduce_def METEOR_ANGLES_def closer_def)
qed

theorem C6_selectMeteorAngle_nearest_witness:
  "\<exists>i<length METEOR_ANGLES.
     METEOR_ANGLES ! i = 160 \<and>
     selectMeteorAngle (Some 158) zeroRng = (Inr (Some (METEOR_ANGLES ! i)), zeroRng) \<and>
     (\<forall>j<length METEOR_ANGLES. \<bar>METEOR_ANGLES ! i - 158\<bar> \<le> \<bar>METEOR_ANGLES ! j - 158\<bar>) \<and>
     (\<forall>j<i. \<bar>METEOR_ANGLES ! i - 158\<bar> < \<bar>METEOR_ANGLES ! j - 158\<bar>)"
proof -
  from C6_selectMeteorAngle_nearest [of 158 zeroRng] obtain i where
    i: "i < length METEOR_ANGLES"
       "selectMeteorAngle (Some 158) zeroRng = (Inr (Some (METEOR_ANGLES ! i)), zeroRng)"
       "\<forall>j<length METEOR_ANGLES. \<bar>METEOR_ANGLES ! i - 158\<bar> \<le> \<bar>METEOR_ANGLES ! j - 158\<bar>"
       "\<forall>j<i. \<bar>METEOR_ANGLES ! i - 158\<bar> < \<bar>METEOR_ANGLES ! j - 158\<bar>"
    and v: "selectMeteorAngle (Some 158) zeroRng = (Inr (Some 160), zeroRng)"
    by blast
  from i(2) v have "METEOR_ANGLES ! i = 160" by simp
  with i show ?thesis by blast
qed

section \<open>Timers set at start-up\<close>

lemma startLoop_tracked:
  "activeMeteorTimeouts (startLoop cfg n s) = activeMeteorTimeouts s \<and>
   activeShowerTimeouts (startLoop cfg n s) = activeShowerTimeouts s \<and>
   length (timers (startLoop cfg n s)) = length (timers s) + n"
  by (induction n arbitrary: s) (simp_all add: Let_def split_beta setTimeout_def)

lemma startMeteors_tracked:
  "activeMeteorTimeouts (startMeteors cfg s) = activeMeteorTimeouts s \<and>
   activeShowerTimeouts (startMeteors cfg s) = activeShowerTimeouts s \<and>
   length (timers (startMeteors cfg s)) =
     length (timers s) + nat (singleMeteorStreamCount (meteors cfg)) + 1"
  by (simp add: startMeteors_def Let_def split_beta setTimeout_def startLoop_tracked)

lemma startMeteors_init:
  "startMeteors CONFIG meteorInit =
     meteorInit\<lparr>timers :=
        [\<lparr>timerId = 1, timerDelay = 0, timerCallback = CreateSingleMeteor\<rparr>,
         \<lparr>timerId = 2, timerDelay = 0, timerCallback = CreateSingleMeteor\<rparr>,
         \<lparr>timerId = 3, timerDelay = 2000, timerCallback = TriggerMeteorShower\<rparr>],
        nextTimerId := 4\<rparr>"
proof -
  have two: "nat (singleMeteorStreamCount (meteors CONFIG)) = Suc (Suc 0)"
    by (simp add: CONFIG_def CONFIG_meteors_def)
  show ?thesis
    unfolding startMeteors_def two
    by (simp add: Let_def random_def setTimeout_def meteorInit_def zeroRng_def
        CONFIG_def CONFIG_meteors_def)
qed

lemma stop_after_start_init:
  "stopMeteors (startMeteors CONFIG meteorInit) = startMeteors CONFIG meteorInit"
  unfolding startMeteors_init
  by (simp add: stopMeteors_def Let_def meteorInit_def querySelectorAllMeteor_def)

lemma hide_show_init:
  "map timerCallback
     (timers (restartMeteors CONFIG (setMeteorPageVisible True
        (stopMeteors (setMeteorPageVisible False (startMeteors CONFIG meteorInit)))))) =
   [CreateSingleMeteor, CreateSingleMeteor, TriggerMeteorShower,
    CreateSingleMeteor, CreateSingleMeteor, TriggerMeteorShower]"
proof -
  have two: "nat (singleMeteorStreamCount (meteors CONFIG)) = Suc (Suc 0)"
    by (simp add: CONFIG_def CONFIG_meteors_def)
  show ?thesis
    unfolding startMeteors_init restartMeteors_def startMeteors_def two
    by (simp add: setMeteorPageVisible_def stopMeteors_def querySelectorAllMeteor_def
        Let_def random_def setTimeout_def meteorInit_def zeroRng_def
        CONFIG_def CONFIG_meteors_def)
qed

text \<open>
  C7: every timer the scheduler creates is to be tracked, so that \<open>stopMeteors\<close> cancels
  it. \<open>startMeteors\<close> drops the handles of the timers it sets: it leaves both tracked
  lists as they were and adds one pending timer for each single-meteor stream and one for
  the first shower. On the initialised module with the default configuration the three
  start-up timers are still pending after \<open>stopMeteors\<close>, and when the first of them fires
  it puts a meteor into the container and re-arms its stream. When the page is hidden and
  shown again before they fire, as the visibility handler of main.js does it, six start-up
  timers are pending: four single-meteor streams instead of two.
\<close>

theorem C7_startup_timers_untracked:
  "activeMeteorTimeouts (startMeteors cfg s) = activeMeteorTimeouts s \<and>
   activeShowerTimeouts (startMeteors cfg s) = activeShowerTimeouts s \<and>
   length (timers (startMeteors cfg s)) =
     length (timers s) + nat (singleMeteorStreamCount (meteors cfg)) + 1 \<and>
   map timerCallback (timers (stopMeteors (startMeteors CONFIG meteorInit))) =
     [CreateSingleMeteor, CreateSingleMeteor, TriggerMeteorShower] \<and>
   map timerId (timers (stopMeteors (startMeteors CONFIG meteorInit))) = [1, 2, 3] \<and>
   length (containerMeteors (fireTimer CONFIG 1 (stopMeteors (startMeteors CONFIG meteorInit)))) = 1 \<and>
   map timerCallback (timers (fireTimer CONFIG 1 (stopMeteors (startMeteors CONFIG meteorInit)))) =
     [CreateSingleMeteor, TriggerMeteorShower, MeteorCleanup 0, CreateSingleMeteor] \<and>
   map timerCallback
     (timers (restartMeteors CONFIG (setMeteorPageVisible True
        (stopMeteors (setMeteorPageVisible False (startMeteors CONFIG meteorInit)))))) =
     [CreateSingleMeteor, CreateSingleMeteor, TriggerMeteorShower,
      CreateSingleMeteor, CreateSingleMeteor, TriggerMeteorShower]"
proof -
  have fired: "fireTimer CONFIG 1 (startMeteors CONFIG meteorInit) =
     meteorInit\<lparr>
       meteorsContainer := Some [\<lparr>elemId = 0, className = ''meteor'',
          childClasses = [''meteor-head'', ''meteor-tail''], styleLeft = 120, styleTop = - 10,
          animationAngle = Some 130, animationTier = Some Short, animationDuration = 4\<rparr>],
       activeMeteorTimeouts := [4, 5],
       timers :=
        [\<lparr>timerId = 2, timerDelay = 0, timerCallback = CreateSingleMeteor\<rparr>,
         \<lparr>timerId = 3, timerDelay = 2000, timerCallback = TriggerMeteorShower\<rparr>,
         \<lparr>timerId = 4, timerDelay = 4000, timerCallback = MeteorCleanup 0\<rparr>,
         \<lparr>timerId = 5, timerDelay = 1500, timerCallback = CreateSingleMeteor\<rparr>],
       nextTimerId := 6, nextElemId := 1\<rparr>"
    unfolding startMeteors_init
    by (simp add: fireTimer_def clearTimeout_def runCallback_def
        createSingleMeteor_def createMeteor_def calculateMeteorStartPosition_def
        selectMeteorAngle_def selectMeteorAnimation_def js_index_def
        METEOR_ANGLES_def DISTANCE_TIERS_def
        Let_def random_def setTimeout_def meteorInit_def zeroRng_def
        CONFIG_def CONFIG_meteors_def)
  show ?thesis
    unfolding stop_after_start_init fired hide_show_init
    unfolding startMeteors_init
    by (simp add: startMeteors_tracked containerMeteors_def
        querySelectorAllMeteor_def meteorInit_def)
qed

section \<open>Star positions\<close>

lemma random_unit:
  assumes "unitRng r" and "random r = (d, r')"
  shows "0 \<le> d \<and> d < 1 \<and> unitRng r'"
  using assms by (auto simp: unitRng_def random_def)

lemma makeStar_position:
  assumes "unitRng r" and "makeStar cfg x y sz c static r = (st, r')"
  shows "star_x st = x \<and> star_y st = y \<and> unitRng r'"
proof (cases static)
  case True
  obtain d r1 where d: "random r = (d, r1)" by (cases "random r")
  from random_unit [OF assms(1) d] assms(2) True d show ?thesis
    by (auto simp: makeStar_def)
next
  case False
  obtain d1 r1 where d1: "random r = (d1, r1)" by (cases "random r")
  obtain d2 r2 where d2: "random r1 = (d2, r2)" by (cases "random r1")
  have "unitRng r1" using random_unit [OF assms(1) d1] by simp
  from random_unit [OF this d2] assms(2) False d1 d2 show ?thesis
    by (auto simp: makeStar_def)
qed

lemma offset_bound:
  fixes lo hi d c :: real
  assumes "0 \<le> lo" and "lo \<le> hi" and "0 \<le> d" and "d < 1" and "\<bar>c\<bar> \<le> 1"
  shows "\<bar>c * (lo + d * (hi - lo))\<bar> \<le> hi"
proof -
  define sep where "sep = lo + d * (hi - lo)"
  have g: "0 \<le> hi - lo" using assms(2) by simp
  have "0 \<le> d * (hi - lo)" using assms(3) g by (rule mult_nonneg_nonneg)
  moreover have "d * (hi - lo) \<le> 1 * (hi - lo)"
    by (rule mult_right_mono) (use assms(4) g in simp_all)
  ultimately have s: "0 \<le> sep" "sep \<le> hi" using assms(1) by (simp_all add: sep_def)
  have "\<bar>c * sep\<bar> = \<bar>c\<bar> * sep" using s by (simp add: abs_mult)
  also have "\<dots> \<le> 1 * sep" by (rule mult_right_mono) (use assms(5) s in simp_all)
  finally show ?thesis using s unfolding sep_def by simp
qed

lemma primary_position:
  fixes d1 d2 w h :: real
  assumes "0 \<le> d1" "d1 < 1" "0 \<le> d2" "d2 < 1" "0 < w" "0 < h"
  shows "0 \<le> d1 * w \<and> d1 * w \<le> w \<and> 0 \<le> d2 powr 1.5 * h \<and> d2 powr 1.5 * h \<le> h"
proof -
  have "d1 * w \<le> 1 * w" by (rule mult_right_mono) (use assms in simp_all)
  moreover have p: "d2 powr 1.5 \<le> 1" by (rule powr_le1) (use assms in simp_all)
  have "d2 powr 1.5 * h \<le> 1 * h" by (rule mult_right_mono) (use assms p in simp_all)
  moreover have "0 \<le> d1 * w" by (rule mult_nonneg_nonneg) (use assms in simp_all)
  moreover have "0 \<le> d2 powr 1.5 * h" by (rule mult_nonneg_nonneg) (use assms in simp_all)
  ultimately show ?thesis by simp
qed

lemma starIteration_bounds:
  assumes u: "unitRng r" and w: "0 < w" and h: "0 < h"
    and lo: "0 \<le> binarySeparationMin (stars cfg)"
    and hi: "binarySeparationMin (stars cfg) \<le> binarySeparationMax (stars cfg)"
    and it: "starIteration cfg w h r = (res, r')"
  shows "unitRng r' \<and>
         (\<forall>pushed. res = Inr pushed \<longrightarrow>
            pushed \<noteq> [] \<and> inViewport w h (hd pushed) \<and>
            (\<forall>st\<in>set pushed. nearViewport (binarySeparationMax (stars cfg)) w h st))"
proof -
  define m where "m = binarySeparationMax (stars cfg)"
  have m0: "0 \<le> m" using lo hi by (simp add: m_def)
  obtain d1 r1 where d1: "random r = (d1, r1)" by (cases "random r")
  obtain d2 r2 where d2: "random r1 = (d2, r2)" by (cases "random r1")
  obtain d3 r3 where d3: "random r2 = (d3, r3)" by (cases "random r2")
  obtain d4 r4 where d4: "random r3 = (d4, r4)" by (cases "random r3")
  note a1 = random_unit [OF u d1]
  note a2 = random_unit [OF a1 [THEN conjunct2, THEN conjunct2] d2]
  note a3 = random_unit [OF a2 [THEN conjunct2, THEN conjunct2] d3]
  note a4 = random_unit [OF a3 [THEN conjunct2, THEN conjunct2] d4]
  define x where "x = d1 * w"
  define y where "y = d2 powr 1.5 * h"
  define sz where "sz = minSize (stars cfg) + d3 * (maxSize (stars cfg) - minSize (stars cfg))"
  have pos: "0 \<le> x \<and> x \<le> w \<and> 0 \<le> y \<and> y \<le> h"
    unfolding x_def y_def using a1 a2 w h by (intro primary_position) simp_all
  show ?thesis
  proof (cases "getSpectralColor cfg d4")
    case (Inl e)
    then have "res = Inl e" "r' = r4"
      using it d1 d2 d3 d4 by (simp_all add: starIteration_def Let_def)
    then show ?thesis using a4 by simp
  next
    case (Inr color)
    obtain d5 r5 where d5: "random r4 = (d5, r5)" by (cases "random r4")
    note a5 = random_unit [OF a4 [THEN conjunct2, THEN conjunct2] d5]
    define static where "static = (d5 < staticPercentage (stars cfg))"
    obtain primary r6 where p: "makeStar cfg x y sz color static r5 = (primary, r6)"
      by (cases "makeStar cfg x y sz color static r5")
    note a6 = makeStar_position [OF a5 [THEN conjunct2, THEN conjunct2] p]
    obtain d7 r7 where d7: "random r6 = (d7, r7)" by (cases "random r6")
    note a7 = random_unit [OF a6 [THEN conjunct2, THEN conjunct2] d7]
    have pin: "inViewport w h primary" using a6 pos by (simp add: inViewport_def)
    have pnear: "nearViewport m w h primary"
      using a6 pos m0 by (simp add: nearViewport_def)
    show ?thesis
    proof (cases "d7 < binaryPercentage (stars cfg)")
      case False
      then have "res = Inr [primary]" "r' = r7"
        using it d1 d2 d3 d4 Inr d5 p d7
        by (simp_all add: starIteration_def Let_def x_def y_def sz_def static_def)
      then show ?thesis using a7 pin pnear by (simp add: m_def)
    next
      case True
      obtain d8 r8 where d8: "random r7 = (d8, r8)" by (cases "random r7")
      obtain d9 r9 where d9: "random r8 = (d9, r9)" by (cases "random r8")
      obtain d10 r10 where d10: "random r9 = (d10, r10)" by (cases "random r9")
      note a8 = random_unit [OF a7 [THEN conjunct2, THEN conjunct2] d8]
      note a9 = random_unit [OF a8 [THEN conjunct2, THEN conjunct2] d9]
      note a10 = random_unit [OF a9 [THEN conjunct2, THEN conjunct2] d10]
      define sep where "sep = binarySeparationMin (stars cfg) +
         d9 * (binarySeparationMax (stars cfg) - binarySeparationMin (stars cfg))"
      define cx where "cx = x + cos (d8 * pi * 2) * sep"
      define cy where "cy = y + sin (d8 * pi * 2) * sep"
      obtain companion r11 where
        c: "makeStar cfg cx cy (sz * (0.6 + d10 * 0.3)) color static r10 = (companion, r11)"
        by (cases "makeStar cfg cx cy (sz * (0.6 + d10 * 0.3)) color static r10")
      note a11 = makeStar_position [OF a10 [THEN conjunct2, THEN conjunct2] c]
      have res: "res = Inr [primary, companion]" "r' = r11"
        using it d1 d2 d3 d4 Inr d5 p d7 True d8 d9 d10 c
        by (simp_all add: starIteration_def Let_def x_def y_def sz_def static_def
            sep_def cx_def cy_def)
      have "\<bar>cos (d8 * pi * 2) * sep\<bar> \<le> m" "\<bar>sin (d8 * pi * 2) * sep\<bar> \<le> m"
        unfolding sep_def m_def using lo hi a9 by (intro offset_bound; simp)+
      then have "nearViewport m w h companion"
        using a11 pos by (simp add: nearViewport_def cx_def cy_def) linarith
      then show ?thesis using res a11 pin pnear by (simp add: m_def)
    qed
  qed
qed

lemma starLoop_bounds:
  assumes w: "0 < w" and h: "0 < h"
    and lo: "0 \<le> binarySeparationMin (stars cfg)"
    and hi: "binarySeparationMin (stars cfg) \<le> binarySeparationMax (stars cfg)"
  shows "unitRng r \<Longrightarrow>
         \<forall>st\<in>set acc. nearViewport (binarySeparationMax (stars cfg)) w h st \<Longrightarrow>
         \<forall>st\<in>set (fst (snd (starLoop cfg w h n acc r))).
            nearViewport (binarySeparationMax (stars cfg)) w h st"
proof (induction n arbitrary: acc r)
  case 0
  then show ?case by simp
next
  case (Suc n)
  obtain res r' where it: "starIteration cfg w h r = (res, r')"
    by (cases "starIteration cfg w h r")
  note b = starIteration_bounds [OF Suc.prems(1) w h lo hi it]
  show ?case
  proof (cases res)
    case (Inl e)
    then show ?thesis using it Suc.prems(2) by simp
  next
    case (Inr pushed)
    have "\<forall>st\<in>set (acc @ pushed). nearViewport (binarySeparationMax (stars cfg)) w h st"
      using Suc.prems(2) b Inr by auto
    from Suc.IH [OF conjunct1 [OF b] this] show ?thesis using it Inr by simp
  qed
qed


lemma starLoop_prefix:
  "\<exists>rest. fst (snd (starLoop cfg w h n acc r)) = acc @ rest"
proof (induction n arbitrary: acc r)
  case 0
  show ?case by simp
next
  case (Suc n)
  obtain res r' where it: "starIteration cfg w h r = (res, r')"
    by (cases "starIteration cfg w h r")
  show ?case
  proof (cases res)
    case (Inl e)
    then show ?thesis using it by simp
  next
    case (Inr pushed)
    obtain rest where "fst (snd (starLoop cfg w h n (acc @ pushed) r')) = (acc @ pushed) @ rest"
      using Suc.IH by blast
    then show ?thesis using it Inr by simp
  qed
qed

lemma generateStars_valid_stars:
  assumes "0 < w" and "0 < h"
  shows "st_stars (snd (generateStars cfg iw (Some w) (Some h) s)) =
         fst (snd (starLoop cfg w h (nat (getStarCount cfg iw)) [] (st_rng s)))"
proof -
  obtain e acc r where l: "starLoop cfg w h (nat (getStarCount cfg iw)) [] (st_rng s) = (e, acc, r)"
    by (cases "starLoop cfg w h (nat (getStarCount cfg iw)) [] (st_rng s)") auto
  show ?thesis using assms l
    by (cases e) (simp_all add: generateStars_def js_not_def js_le0_def Let_def split_beta)
qed

lemma companion_iteration:
  "fst (starIteration CONFIG 1920 1080 companionRng) = Inr [companionPrimary, companionStar]"
  by (simp add: starIteration_def getSpectralColor_def makeStar_def random_def Let_def
      companionRng_def CONFIG_def CONFIG_stars_def companionPrimary_def companionStar_def)

lemma companion_generation:
  "\<exists>rest. st_stars (snd (generateStars CONFIG 1920 (Some 1920) (Some 1080) companionState)) =
           companionPrimary # companionStar # rest"
proof -
  have n: "nat (getStarCount CONFIG 1920) = Suc 1199"
    by (simp add: getStarCount_def CONFIG_def CONFIG_stars_def)
  obtain r' where it:
    "starIteration CONFIG 1920 1080 companionRng = (Inr [companionPrimary, companionStar], r')"
    using companion_iteration by (cases "starIteration CONFIG 1920 1080 companionRng") simp
  obtain rest where rest:
    "fst (snd (starLoop CONFIG 1920 1080 1199 ([] @ [companionPrimary, companionStar]) r')) =
     ([] @ [companionPrimary, companionStar]) @ rest"
    using starLoop_prefix by blast
  have "fst (snd (starLoop CONFIG 1920 1080 (nat (getStarCount CONFIG 1920)) []
                    (st_rng companionState))) =
        companionPrimary # companionStar # rest"
    unfolding n by (subst starLoop.simps(2)) (use it rest in \<open>simp add: companionState_def\<close>)
  then show ?thesis
    using generateStars_valid_stars [of 1920 1080 CONFIG 1920 companionState]
    by simp
qed

text \<open>
  C8, as stated: every star of a generation pass, companions included, lies inside the
  canvas. On a 1920 by 1080 canvas with the default configuration, the second star of the
  population is the companion of the first and has \<open>x = -2\<close>.
\<close>

theorem C8_companion_counterexample:
  "1 < length (st_stars (snd (generateStars CONFIG 1920 (Some 1920) (Some 1080) companionState))) \<and>
   star_x (st_stars (snd (generateStars CONFIG 1920 (Some 1920) (Some 1080) companionState)) ! 1) = - 2 \<and>
   \<not> 0 \<le> star_x (st_stars (snd (generateStars CONFIG 1920 (Some 1920) (Some 1080) companionState)) ! 1)"
proof -
  obtain rest where
    "st_stars (snd (generateStars CONFIG 1920 (Some 1920) (Some 1080) companionState)) =
     companionPrimary # companionStar # rest"
    using companion_generation by blast
  then show ?thesis by (simp add: companionStar_def)
qed

text \<open>
  C8, amended: in a generation pass with valid width and height, the primary star that
  each pass of the loop pushes first lies inside the canvas, and every star of the
  population, companions included, lies no farther than \<open>binarySeparationMax\<close> outside it
  in each coordinate: a companion is offset from its primary by the separation and is
  not clipped.
\<close>

theorem C8_star_positions:
  assumes "0 < w" and "0 < h" and "unitRng (st_rng s)"
    and "0 \<le> binarySeparationMin (stars cfg)"
    and "binarySeparationMin (stars cfg) \<le> binarySeparationMax (stars cfg)"
  shows "(\<forall>st\<in>set (st_stars (snd (generateStars cfg innerWidth (Some w) (Some h) s))).
            nearViewport (binarySeparationMax (stars cfg)) w h st) \<and>
         (\<forall>r pushed. unitRng r \<and> fst (starIteration cfg w h r) = Inr pushed \<longrightarrow>
            pushed \<noteq> [] \<and> inViewport w h (hd pushed))"
proof (intro conjI allI impI)
  have "\<forall>st\<in>set (fst (snd (starLoop cfg w h (nat (getStarCount cfg innerWidth)) [] (st_rng s)))).
          nearViewport (binarySeparationMax (stars cfg)) w h st"
    using assms by (intro starLoop_bounds) simp_all
  then show "\<forall>st\<in>set (st_stars (snd (generateStars cfg innerWidth (Some w) (Some h) s))).
            nearViewport (binarySeparationMax (stars cfg)) w h st"
    using generateStars_valid_stars [OF assms(1,2)] by simp
next
  fix r pushed
  assume a: "unitRng r \<and> fst (starIteration cfg w h r) = Inr pushed"
  obtain r' where it: "starIteration cfg w h r = (Inr pushed, r')"
    using a by (cases "starIteration cfg w h r") simp
  from starIteration_bounds [OF conjunct1 [OF a] assms(1,2,4,5) it]
  show "pushed \<noteq> []" and "inViewport w h (hd pushed)" by simp_all
qed

theorem C8_star_positions_witness:
  "unitRng (st_rng companionState) \<and>
   nearViewport 8 1920 1080
     (st_stars (snd (generateStars CONFIG 1920 (Some 1920) (Some 1080) companionState)) ! 1) \<and>
   inViewport 1920 1080 (hd (projr (fst (starIteration CONFIG 1920 1080 companionRng))))"
proof -
  have u: "unitRng (st_rng companionState)"
    by (simp add: unitRng_def companionState_def companionRng_def)
  have u': "unitRng companionRng" using u by (simp add: companionState_def)
  have lo: "0 \<le> binarySeparationMin (stars CONFIG)"
    and hi: "binarySeparationMin (stars CONFIG) \<le> binarySeparationMax (stars CONFIG)"
    by (simp_all add: CONFIG_def CONFIG_stars_def)
  have m: "binarySeparationMax (stars CONFIG) = 8" by (simp add: CONFIG_def CONFIG_stars_def)
  note t = C8_star_positions [of 1920 1080 companionState CONFIG 1920, OF _ _ u lo hi, simplified]
  obtain rest where g:
    "st_stars (snd (generateStars CONFIG 1920 (Some 1920) (Some 1080) companionState)) =
     companionPrimary # companionStar # rest"
    using companion_generation by blast
  have "nearViewport 8 1920 1080 companionStar"
    using t [THEN conjunct1] g m by simp
  moreover have "inViewport 1920 1080 (hd [companionPrimary, companionStar])"
    using t [THEN conjunct2, rule_format, of companionRng "[companionPrimary, companionStar]"]
      u' companion_iteration by simp
  ultimately show ?thesis using u g companion_iteration by simp
qed

end
